theory Spec2Isabelle
  imports Main "HOL-Library.Word"
begin

section \<open>Data model of main.go\<close>

text \<open>
  The album service of \<^verbatim>\<open>src/main.go\<close>: two gin handlers over one MySQL table, a
  liveness handler and the start-up sequence. Go's \<^verbatim>\<open>int\<close> is the 64-bit integer of a
  64-bit platform; the service never computes with it, so it is an \<open>int\<close> whose range is
  checked where a value is produced (\<open>Atoi\<close>). A Go string is a \<open>string\<close>: the list of its
  bytes, one \<open>char\<close> each (what a character is depends on the character set that reads the
  bytes, and only the storage asks); \<^verbatim>\<open>[]byte\<close> is a list of 8-bit words.
\<close>

type_synonym byte = "8 word"

text \<open>\<^verbatim>\<open>type Album struct\<close>, lines 16-22.\<close>

record Album =
  ID :: int
  Artist :: string
  Title :: string
  Year :: int
  Image_bytes :: "byte list"

text \<open>
  Every failure a library call of the handlers can report. The handlers only test
  \<^verbatim>\<open>err != nil\<close>, except for \<^verbatim>\<open>sql.ErrNoRows\<close>.
\<close>

datatype error =
    ErrNotMultipart
  | ErrMessageTooLarge
  | ErrMissingFile
  | ErrOpenFile
  | ErrReadFile
  | ErrSyntax
  | ErrRange
  | ErrConnection
  | ErrConstraint
  | ErrNoRows
  | ErrNoInsertId

section \<open>JSON responses\<close>

text \<open>
  What \<^verbatim>\<open>c.JSON(code, obj)\<close> writes: a status code and a JSON value. A byte slice is
  rendered by encoding/json as a base64 string of the bytes; the model keeps the bytes
  (\<open>JBytes\<close>), the encoding being injective.
\<close>

datatype json =
    JInt int
  | JStr string
  | JBytes "byte list"
  | JObj "(string \<times> json) list"

record Response =
  status :: nat
  body :: json

definition JSON :: "nat \<Rightarrow> json \<Rightarrow> Response" where
  "JSON code obj = \<lparr>status = code, body = obj\<rparr>"

text \<open>\<^verbatim>\<open>gin.H{k: v}\<close> with its single entry.\<close>

definition H :: "string \<Rightarrow> json \<Rightarrow> json" where
  "H k v = JObj [(k, v)]"

text \<open>
  encoding/json on an \<^verbatim>\<open>Album\<close>, following the struct tags of lines 17-21: the fields in
  declaration order, \<^verbatim>\<open>id\<close> left out when it is 0 and \<^verbatim>\<open>image\<close> left out when the slice
  has length 0 (\<^verbatim>\<open>omitempty\<close>).
\<close>

definition marshal_Album :: "Album \<Rightarrow> json" where
  "marshal_Album a = JObj (
     (if ID a = 0 then [] else [(''id'', JInt (ID a))]) @
     [(''artist'', JStr (Artist a)), (''title'', JStr (Title a)), (''year'', JInt (Year a))] @
     (if length (Image_bytes a) = 0 then [] else [(''image'', JBytes (Image_bytes a))]))"

text \<open>The member of a JSON object under a key, as a client reading the body finds it.\<close>

fun member :: "json \<Rightarrow> string \<Rightarrow> json option" where
  "member (JObj kvs) k = map_of kvs k"
| "member _ k = None"

section \<open>strconv.Atoi\<close>

text \<open>
  \<^verbatim>\<open>strconv.Atoi\<close>: an optional sign \<^verbatim>\<open>+\<close> or \<^verbatim>\<open>-\<close>, then one or more decimal digits and
  nothing else (no spaces, no underscores in base 10); a value outside the 64-bit range
  is an error as well.
\<close>

definition is_digit :: "char \<Rightarrow> bool" where
  "is_digit c = (48 \<le> (of_char c :: nat) \<and> (of_char c :: nat) \<le> 57)"

definition digit_val :: "char \<Rightarrow> nat" where
  "digit_val c = of_char c - 48"

fun digits_val :: "nat \<Rightarrow> string \<Rightarrow> nat" where
  "digits_val acc [] = acc"
| "digits_val acc (c # cs) = digits_val (acc * 10 + digit_val c) cs"

definition strip_sign :: "string \<Rightarrow> bool \<times> string" where
  "strip_sign s = (case s of
       [] \<Rightarrow> (False, [])
     | c # r \<Rightarrow> if c = CHR ''-'' then (True, r)
                else if c = CHR ''+'' then (False, r)
                else (False, s))"

definition Atoi :: "string \<Rightarrow> error + int" where
  "Atoi s = (case strip_sign s of (neg, ds) \<Rightarrow>
     if ds = [] \<or> \<not> list_all is_digit ds then Inl ErrSyntax
     else (let n = int (digits_val 0 ds); v = (if neg then - n else n)
           in if v < - (2 ^ 63) \<or> 2 ^ 63 - 1 < v then Inl ErrRange else Inr v))"

section \<open>The request: gin.Context\<close>

text \<open>
  A file part of the form as \<^verbatim>\<open>multipart.FileHeader\<close> gives it to the handler: its
  bytes, and what happens when it is opened and read. A part kept in memory always opens
  and reads; a part spilled to a temporary file can fail to. \<^verbatim>\<open>c.FormFile\<close> opens the
  file once itself (\<open>fh_probe\<close>) before the handler calls \<^verbatim>\<open>file.Open()\<close>
  (\<open>fh_open\<close>) and \<^verbatim>\<open>io.ReadAll\<close> (\<open>fh_read\<close>). \<open>fh_header\<close> is the size the library
  reckons for the MIME header of the part (its \<^verbatim>\<open>mimeHeaderSize\<close>).
\<close>

record FileHeader =
  fh_content :: "byte list"
  fh_header :: nat
  fh_probe :: bool
  fh_open :: bool
  fh_read :: bool

datatype part =
    Field string string
  | FilePart string FileHeader

datatype payload =
    Malformed
  | Multipart "part list"

text \<open>
  What a handler reads of \<^verbatim>\<open>*gin.Context\<close>: the path parameters of the route, the
  decoded URL query, and the request body.
\<close>

record Context =
  Params :: "(string \<times> string) list"
  Query :: "(string \<times> string) list"
  Body :: payload

text \<open>\<^verbatim>\<open>c.Param(key)\<close>: the path parameter, the empty string when there is none.\<close>

definition Param :: "Context \<Rightarrow> string \<Rightarrow> string" where
  "Param c key = (case map_of (Params c) key of None \<Rightarrow> [] | Some v \<Rightarrow> v)"

text \<open>The parsed form: \<^verbatim>\<open>Request.Form\<close> and \<^verbatim>\<open>Request.MultipartForm.File\<close>.\<close>

record Form =
  form_values :: "(string \<times> string) list"
  form_files :: "(string \<times> FileHeader) list"

text \<open>The bytes of the body's parts, text fields and files together.\<close>

fun total_bytes :: "part list \<Rightarrow> nat" where
  "total_bytes [] = 0"
| "total_bytes (Field n v # ps) = length v + total_bytes ps"
| "total_bytes (FilePart n f # ps) = length (fh_content f) + total_bytes ps"

text \<open>
  The loop of mime/multipart's \<^verbatim>\<open>readForm\<close> (Go 1.20 and later) over the parts of a
  well-formed body, with its three budgets: \<open>maxParts\<close>, the parts it still accepts (1000 at
  the start, nameless parts counted); \<open>mem\<close>, the bytes it may still keep in memory
  (\<open>maxMemory\<close> plus 10 MB at the start), charged with the name of every named part and 200
  bytes of overhead, with the value of a text field, with the header of a file part and 300
  bytes of overhead, and with the content of a file kept in memory; \<open>fmem\<close>, the bytes of
  file content it may still keep in memory (\<open>maxMemory\<close> at the start). A file whose
  content is beyond \<open>fmem\<close> goes to a temporary file on disk and is charged to neither: the
  size of a file part is never an error. A part without a name is skipped. Running out of
  parts or of \<open>mem\<close> is \<^verbatim>\<open>ErrMessageTooLarge\<close>. The MIME headers of the parts are taken to
  be of ordinary size, within the limits the library sets on reading them.
\<close>

fun readForm :: "nat \<Rightarrow> int \<Rightarrow> int \<Rightarrow> part list \<Rightarrow> error + Form" where
  "readForm maxParts mem fmem [] = Inr \<lparr>form_values = [], form_files = []\<rparr>"
| "readForm maxParts mem fmem (Field n v # ps) =
     (if maxParts = 0 then Inl ErrMessageTooLarge
      else if n = [] then readForm (maxParts - 1) mem fmem ps
      else if mem - int (length n) - 200 < 0 then Inl ErrMessageTooLarge
      else if mem - int (length n) - 200 - int (length v) < 0 then Inl ErrMessageTooLarge
      else (case readForm (maxParts - 1) (mem - int (length n) - 200 - int (length v)) fmem ps of
              Inl err \<Rightarrow> Inl err
            | Inr form \<Rightarrow> Inr (form\<lparr>form_values := (n, v) # form_values form\<rparr>)))"
| "readForm maxParts mem fmem (FilePart n f # ps) =
     (if maxParts = 0 then Inl ErrMessageTooLarge
      else if n = [] then readForm (maxParts - 1) mem fmem ps
      else if mem - int (length n) - 200 < 0 then Inl ErrMessageTooLarge
      else if mem - int (length n) - 200 - int (fh_header f) - 200 - 100 < 0
      then Inl ErrMessageTooLarge
      else (case (if fmem < int (length (fh_content f))
                  then readForm (maxParts - 1)
                         (mem - int (length n) - 200 - int (fh_header f) - 200 - 100) fmem ps
                  else readForm (maxParts - 1)
                         (mem - int (length n) - 200 - int (fh_header f) - 200 - 100
                            - int (length (fh_content f)))
                         (fmem - int (length (fh_content f))) ps) of
              Inl err \<Rightarrow> Inl err
            | Inr form \<Rightarrow> Inr (form\<lparr>form_files := (n, f) # form_files form\<rparr>)))"

text \<open>
  \<^verbatim>\<open>Request.ParseMultipartForm(maxMemory)\<close>: a body that is not well-formed multipart
  data is an error; otherwise the form is read with the budgets above, and on success
  \<^verbatim>\<open>Request.Form\<close> holds the values of the URL query followed by the text fields of the
  body.
\<close>

definition ParseMultipartForm :: "nat \<Rightarrow> Context \<Rightarrow> error + Form" where
  "ParseMultipartForm maxMemory c = (case Body c of
       Malformed \<Rightarrow> Inl ErrNotMultipart
     | Multipart ps \<Rightarrow>
         (case readForm 1000 (int maxMemory + push_bit 20 10) (int maxMemory) ps of
            Inl err \<Rightarrow> Inl err
          | Inr form \<Rightarrow> Inr (form\<lparr>form_values := Query c @ form_values form\<rparr>)))"

text \<open>\<^verbatim>\<open>Request.FormValue(key)\<close>: the first value under the key, the empty string when there is none.\<close>

definition FormValue :: "Form \<Rightarrow> string \<Rightarrow> string" where
  "FormValue f key = (case map_of (form_values f) key of None \<Rightarrow> [] | Some v \<Rightarrow> v)"

text \<open>
  \<^verbatim>\<open>c.FormFile(key)\<close>: the first file under the key, \<^verbatim>\<open>ErrMissingFile\<close> when there is
  none, and the error of its own opening of that file.
\<close>

definition FormFile :: "Form \<Rightarrow> string \<Rightarrow> error + FileHeader" where
  "FormFile f key = (case map_of (form_files f) key of
       None \<Rightarrow> Inl ErrMissingFile
     | Some fh \<Rightarrow> if fh_probe fh then Inr fh else Inl ErrOpenFile)"

text \<open>\<^verbatim>\<open>file.Open()\<close>; the opened file is the header it reads from.\<close>

definition Open :: "FileHeader \<Rightarrow> error + FileHeader" where
  "Open fh = (if fh_open fh then Inr fh else Inl ErrOpenFile)"

text \<open>\<^verbatim>\<open>io.ReadAll(openedFile)\<close>.\<close>

definition ReadAll :: "FileHeader \<Rightarrow> error + byte list" where
  "ReadAll f = (if fh_read f then Inr (fh_content f) else Inl ErrReadFile)"

section \<open>The storage: the Albums table behind the global handle\<close>

text \<open>
  The state behind \<^verbatim>\<open>var db *sql.DB\<close>: whether the server answers (\<open>db_up\<close>), whether the
  driver reports the id of an insert (\<open>db_insert_id\<close>; \<^verbatim>\<open>result.LastInsertId()\<close> has an
  error result that line 119 tests), the character set of the text columns, the next
  AUTO_INCREMENT value and the rows in insertion order. The \<^verbatim>\<open>CREATE TABLE\<close> statement
  names no character set, so the columns have the default of the server: \<open>db_chars s\<close> is
  the number of characters of the bytes \<open>s\<close> when they are well-formed text in it, and \<open>None\<close>
  when they are not.
\<close>

record DB =
  db_up :: bool
  db_insert_id :: bool
  db_chars :: "string \<Rightarrow> nat option"
  auto_inc :: int
  Albums :: "Album list"

text \<open>
  A \<^verbatim>\<open>VARCHAR(255)\<close> column of lines 54 and 56, under MySQL's strict SQL mode: bytes that
  are not well-formed text in the character set are refused; text of at most 255
  characters is stored as it is; of longer text, MySQL cuts off the excess when it consists
  of trailing spaces only (one byte each) and refuses the value otherwise.
\<close>

definition store_varchar :: "DB \<Rightarrow> string \<Rightarrow> string option" where
  "store_varchar d s = (case db_chars d s of
       None \<Rightarrow> None
     | Some n \<Rightarrow>
         if n \<le> 255 then Some s
         else if n \<le> length s \<and>
                 list_all (\<lambda>c. c = CHR '' '') (drop (length s - (n - 255)) s)
         then Some (take (length s - (n - 255)) s)
         else None)"

text \<open>The value is stored whole: well-formed text of at most 255 characters.\<close>

definition fits_varchar :: "DB \<Rightarrow> string \<Rightarrow> bool" where
  "fits_varchar d s = (case db_chars d s of None \<Rightarrow> False | Some n \<Rightarrow> n \<le> 255)"

text \<open>
  The other two columns, lines 55 and 57: \<^verbatim>\<open>INT\<close> holds a signed 32-bit value,
  \<^verbatim>\<open>MEDIUMBLOB\<close> at most \<open>2^24 - 1\<close> bytes; a value that does not fit is an error of the
  statement.
\<close>

definition fits_columns :: "int \<Rightarrow> byte list \<Rightarrow> bool" where
  "fits_columns year img \<longleftrightarrow>
     - 2147483648 \<le> year \<and> year \<le> 2147483647 \<and> length img \<le> 16777215"

text \<open>
  \<^verbatim>\<open>db.Exec("INSERT INTO Albums (artist, title, year, image) VALUES (?, ?, ?, ?)", ...)\<close>:
  the new state and the id given to the row. The id is the AUTO_INCREMENT value, which
  must itself fit the \<^verbatim>\<open>INT\<close> primary key.
\<close>

definition Exec_insert :: "DB \<Rightarrow> string \<Rightarrow> string \<Rightarrow> int \<Rightarrow> byte list \<Rightarrow> error + DB \<times> int" where
  "Exec_insert d artist title year img =
     (if \<not> db_up d then Inl ErrConnection
      else (case store_varchar d artist of
         None \<Rightarrow> Inl ErrConstraint
       | Some stored_artist \<Rightarrow>
      (case store_varchar d title of
         None \<Rightarrow> Inl ErrConstraint
       | Some stored_title \<Rightarrow>
      if fits_columns year img \<and> auto_inc d \<le> 2147483647
      then Inr (d\<lparr>auto_inc := auto_inc d + 1,
                  Albums := Albums d @
                    [\<lparr>ID = auto_inc d, Artist = stored_artist, Title = stored_title,
                      Year = year, Image_bytes = img\<rparr>]\<rparr>,
                auto_inc d)
      else Inl ErrConstraint)))"

text \<open>\<^verbatim>\<open>result.LastInsertId()\<close> on the result of an insert made on \<open>d\<close>.\<close>

definition LastInsertId :: "DB \<Rightarrow> int \<Rightarrow> error + int" where
  "LastInsertId d new_id = (if db_insert_id d then Inr new_id else Inl ErrNoInsertId)"

text \<open>
  \<^verbatim>\<open>db.QueryRow("SELECT id, artist, title, year, image FROM Albums WHERE id = ?", id).Scan(...)\<close>.
\<close>

definition QueryRow_Scan :: "DB \<Rightarrow> int \<Rightarrow> error + Album" where
  "QueryRow_Scan d albumID =
     (if \<not> db_up d then Inl ErrConnection
      else case find (\<lambda>a. ID a = albumID) (Albums d) of
             None \<Rightarrow> Inl ErrNoRows
           | Some a \<Rightarrow> Inr a)"

section \<open>The handlers\<close>

text \<open>\<^verbatim>\<open>func createAlbum(c *gin.Context)\<close>, lines 66-125: the storage after the call and the response.\<close>

definition createAlbum :: "DB \<Rightarrow> Context \<Rightarrow> DB \<times> Response" where
  "createAlbum d c =
     (case ParseMultipartForm (push_bit 20 10) c of
        Inl err \<Rightarrow> (d, JSON 400 (H ''error'' (JStr ''Invalid form data'')))
      | Inr form \<Rightarrow>
     (let artist = FormValue form ''artist'';
          title = FormValue form ''title'';
          yearStr = FormValue form ''year''
      in if artist = [] \<or> title = [] \<or> yearStr = []
         then (d, JSON 400 (H ''error'' (JStr ''Artist, title, and year are required'')))
         else (case Atoi yearStr of
            Inl err \<Rightarrow> (d, JSON 400 (H ''error'' (JStr ''Year must be a positive integer'')))
          | Inr year \<Rightarrow>
         if year \<le> 0
         then (d, JSON 400 (H ''error'' (JStr ''Year must be a positive integer'')))
         else (case FormFile form ''image'' of
            Inl err \<Rightarrow> (d, JSON 400 (H ''error'' (JStr ''Image is required'')))
          | Inr file \<Rightarrow>
         (case Open file of
            Inl err \<Rightarrow> (d, JSON 500 (H ''error'' (JStr ''Failed to process image file'')))
          | Inr openedFile \<Rightarrow>
         (case ReadAll openedFile of
            Inl err \<Rightarrow> (d, JSON 500 (H ''error'' (JStr ''Failed to read image file'')))
          | Inr imageData \<Rightarrow>
         (case Exec_insert d artist title year imageData of
            Inl err \<Rightarrow> (d, JSON 500 (H ''error'' (JStr ''Failed to insert album'')))
          | Inr (d', result) \<Rightarrow>
         (case LastInsertId d result of
            Inl err \<Rightarrow> (d', JSON 500 (H ''error'' (JStr ''Failed to retrieve album ID'')))
          | Inr albumID \<Rightarrow> (d', JSON 201 (H ''AlbumID'' (JInt albumID)))))))))))"

text \<open>\<^verbatim>\<open>func getAlbum(c *gin.Context)\<close>, lines 128-147. It only reads the storage.\<close>

definition getAlbum :: "DB \<Rightarrow> Context \<Rightarrow> Response" where
  "getAlbum d c =
     (case Atoi (Param c ''id'') of
        Inl err \<Rightarrow> JSON 400 (H ''error'' (JStr ''Invalid album ID''))
      | Inr albumID \<Rightarrow>
     (case QueryRow_Scan d albumID of
        Inl err \<Rightarrow>
          if err = ErrNoRows then JSON 404 (H ''error'' (JStr ''Album not found''))
          else JSON 500 (H ''error'' (JStr ''Database error''))
      | Inr album \<Rightarrow> JSON 200 (marshal_Album album)))"

text \<open>
  The handler of \<^verbatim>\<open>GET /health\<close>, lines 157-159. Like the other two it runs with the
  global handle in scope, which is why the storage is an argument.
\<close>

definition health :: "DB \<Rightarrow> Context \<Rightarrow> Response" where
  "health d c = JSON 200 (H ''status'' (JStr ''ok''))"

section \<open>Start-up\<close>

text \<open>
  The process environment, and what the database server does at start-up: whether
  \<^verbatim>\<open>sql.Open\<close>, \<^verbatim>\<open>db.Ping\<close> and the \<^verbatim>\<open>CREATE TABLE IF NOT EXISTS\<close> statement succeed, and
  the table the server holds.
\<close>

type_synonym env = "string \<Rightarrow> string option"

record Server =
  sql_open :: bool
  ping :: bool
  create_table :: bool
  store :: DB

text \<open>\<^verbatim>\<open>os.Getenv\<close>: the empty string for a variable that is not set.\<close>

definition Getenv :: "env \<Rightarrow> string \<Rightarrow> string" where
  "Getenv e key = (case e key of None \<Rightarrow> [] | Some v \<Rightarrow> v)"

text \<open>
  \<^verbatim>\<open>func initDB()\<close>, lines 27-63: \<open>Inl\<close> is the message of the \<^verbatim>\<open>log.Fatal\<close> that ends the
  process, \<open>Inr\<close> the handle the handlers will use.
\<close>

definition initDB :: "env \<Rightarrow> Server \<Rightarrow> string + DB" where
  "initDB e srv =
     (let dsn = Getenv e ''DB_DSN''
      in if dsn = [] then Inl ''DB_DSN environment variable not set''
         else if \<not> sql_open srv then Inl ''Failed to open DB''
         else if \<not> ping srv then Inl ''Failed to connect to DB''
         else if \<not> create_table srv then Inl ''Failed to create table''
         else Inr (store srv))"

text \<open>
  \<^verbatim>\<open>func main()\<close>, lines 149-173, up to the blocking \<^verbatim>\<open>r.Run\<close>: either the process has
  exited in \<open>initDB\<close>, or the router listens on an address with a storage handle.
\<close>

datatype startup =
    Fatal string
  | Run string DB

definition main :: "env \<Rightarrow> Server \<Rightarrow> startup" where
  "main e srv =
     (case initDB e srv of
        Inl msg \<Rightarrow> Fatal msg
      | Inr d \<Rightarrow>
          (let port = Getenv e ''PORT'';
               port = (if port = [] then ''8080'' else port)
           in Run ('':'' @ port) d))"

section \<open>States of the storage\<close>

text \<open>
  The table as the service fills it: ids are positive and below the next AUTO_INCREMENT
  value.
\<close>

definition db_inv :: "DB \<Rightarrow> bool" where
  "db_inv d \<longleftrightarrow> 0 < auto_inc d \<and> list_all (\<lambda>a. 0 < ID a \<and> ID a < auto_inc d) (Albums d)"

text \<open>
  MySQL's character set \<open>ascii\<close>: text is bytes below 128, one for each character.
\<close>

definition ascii_chars :: "string \<Rightarrow> nat option" where
  "ascii_chars s =
     (if list_all (\<lambda>c. (of_char c :: nat) < 128) s then Some (length s) else None)"

text \<open>The empty table of a fresh server whose default character set is \<open>ascii\<close>.\<close>

definition db0 :: DB where
  "db0 = \<lparr>db_up = True, db_insert_id = True, db_chars = ascii_chars, auto_inc = 1,
          Albums = []\<rparr>"

section \<open>Example requests\<close>

text \<open>
  A file part that opens and reads, sent with the two header lines \<^verbatim>\<open>Content-Disposition\<close>
  and \<^verbatim>\<open>Content-Type\<close> of a browser's upload.
\<close>

definition upload :: "byte list \<Rightarrow> FileHeader" where
  "upload bs =
     \<lparr>fh_content = bs, fh_header = 885, fh_probe = True, fh_open = True, fh_read = True\<rparr>"

text \<open>\<^verbatim>\<open>POST /albums\<close> with the four parts of the form, and \<^verbatim>\<open>GET /albums/:id\<close>.\<close>

definition post_albums :: "string \<Rightarrow> string \<Rightarrow> string \<Rightarrow> FileHeader \<Rightarrow> Context" where
  "post_albums artist title year file =
     \<lparr>Params = [], Query = [],
      Body = Multipart [Field ''artist'' artist, Field ''title'' title, Field ''year'' year,
                        FilePart ''image'' file]\<rparr>"

definition get_albums :: "string \<Rightarrow> Context" where
  "get_albums seg = \<lparr>Params = [(''id'', seg)], Query = [], Body = Malformed\<rparr>"

text \<open>The 17 bytes of the scenario of the specification.\<close>

definition img17 :: "byte list" where
  "img17 = [137, 80, 78, 71, 13, 10, 26, 10, 0, 0, 0, 13, 73, 72, 68, 82, 0]"

text \<open>A table holding one row whose image is zero bytes long.\<close>

definition db_blank_image :: DB where
  "db_blank_image =
     \<lparr>db_up = True, db_insert_id = True, db_chars = ascii_chars, auto_inc = 2,
      Albums = [\<lparr>ID = 1, Artist = ''Radiohead'', Title = ''OK Computer'', Year = 1997,
                 Image_bytes = []\<rparr>]\<rparr>"

text \<open>The bytes of the parts a well-formed body carries.\<close>

definition sent_bytes :: "Context \<Rightarrow> nat" where
  "sent_bytes c = (case Body c of Malformed \<Rightarrow> 0 | Multipart ps \<Rightarrow> total_bytes ps)"

text \<open>The scenario of the specification, and the same form with an image of 11 MiB.\<close>

definition radiohead :: Context where
  "radiohead = post_albums ''Radiohead'' ''OK Computer'' ''1997'' (upload img17)"

definition oversized_upload :: Context where
  "oversized_upload =
     post_albums ''Radiohead'' ''OK Computer'' ''1997'' (upload (replicate 11534336 0))"

text \<open>The form without its image part.\<close>

definition no_image :: Context where
  "no_image =
     \<lparr>Params = [], Query = [],
      Body = Multipart [Field ''artist'' ''Radiohead'', Field ''title'' ''OK Computer'',
                        Field ''year'' ''1997'']\<rparr>"

text \<open>A server on which every step of \<open>initDB\<close> succeeds, with an empty table.\<close>

definition server_ok :: Server where
  "server_ok = \<lparr>sql_open = True, ping = True, create_table = True, store = db0\<rparr>"

section \<open>Unfolding the model\<close>

lemmas handler_defs =
  createAlbum_def getAlbum_def ParseMultipartForm_def FormValue_def FormFile_def Open_def
  ReadAll_def Exec_insert_def LastInsertId_def QueryRow_Scan_def store_varchar_def
  fits_varchar_def fits_columns_def JSON_def H_def Param_def marshal_Album_def

lemmas atoi_defs = Atoi_def strip_sign_def is_digit_def digit_val_def

lemmas example_defs =
  upload_def post_albums_def get_albums_def ascii_chars_def db0_def img17_def db_blank_image_def
  radiohead_def oversized_upload_def no_image_def server_ok_def sent_bytes_def

section \<open>Facts about the library calls and the table\<close>

lemma Atoi_nonempty: "Atoi s = Inr v \<Longrightarrow> s \<noteq> []"
  by (auto simp: Atoi_def strip_sign_def)

lemma find_snoc:
  "find P (xs @ [a]) =
     (case find P xs of None \<Rightarrow> (if P a then Some a else None) | Some x \<Rightarrow> Some x)"
  by (induction xs) auto

lemma find_fresh: "list_all (\<lambda>a. ID a < n) xs \<Longrightarrow> find (\<lambda>a. ID a = n) xs = None"
  by (induction xs) auto


lemma list_all_replicate: "list_all P (replicate n x) \<longleftrightarrow> n = 0 \<or> P x"
  by (induction n) auto

lemma store_varchar_fits: "fits_varchar d s \<Longrightarrow> store_varchar d s = Some s"
  by (simp add: fits_varchar_def store_varchar_def split: option.splits)

lemma store_varchar_nonempty: "store_varchar d s = Some t \<Longrightarrow> s \<noteq> [] \<Longrightarrow> t \<noteq> []"
  by (auto simp: store_varchar_def split: option.splits if_splits)

lemma member_marshal_Album:
  "member (marshal_Album a) ''artist'' = Some (JStr (Artist a))"
  "member (marshal_Album a) ''title'' = Some (JStr (Title a))"
  "member (marshal_Album a) ''year'' = Some (JInt (Year a))"
  "member (marshal_Album a) ''image'' =
     (if Image_bytes a = [] then None else Some (JBytes (Image_bytes a)))"
  "member (marshal_Album a) ''id'' = (if ID a = 0 then None else Some (JInt (ID a)))"
  by (simp_all add: marshal_Album_def)

section \<open>What createAlbum does to the table\<close>

lemma createAlbum_parse_failure:
  "ParseMultipartForm (push_bit 20 10) c = Inl e \<Longrightarrow>
   createAlbum d c = (d, JSON 400 (H ''error'' (JStr ''Invalid form data'')))"
  by (simp add: createAlbum_def)

lemma createAlbum_success:
  assumes "ParseMultipartForm (push_bit 20 10) c = Inr form"
    and "FormValue form ''artist'' \<noteq> []" and "FormValue form ''title'' \<noteq> []"
    and "Atoi (FormValue form ''year'') = Inr year" and "0 < year"
    and "FormFile form ''image'' = Inr file" and "fh_open file" and "fh_read file"
    and "db_up d" and "db_insert_id d" and "auto_inc d \<le> 2147483647"
    and "fits_varchar d (FormValue form ''artist'')" and "fits_varchar d (FormValue form ''title'')"
    and "fits_columns year (fh_content file)"
  shows "createAlbum d c =
    (d\<lparr>auto_inc := auto_inc d + 1,
       Albums := Albums d @
         [\<lparr>ID = auto_inc d, Artist = FormValue form ''artist'', Title = FormValue form ''title'',
           Year = year, Image_bytes = fh_content file\<rparr>]\<rparr>,
     JSON 201 (H ''AlbumID'' (JInt (auto_inc d))))"
  using assms Atoi_nonempty [of "FormValue form ''year''" year]
  by (simp add: createAlbum_def Let_def Open_def ReadAll_def Exec_insert_def LastInsertId_def
        store_varchar_fits)

lemma createAlbum_db:
  "fst (createAlbum d c) = d \<or>
   (\<exists>a. fst (createAlbum d c) = d\<lparr>auto_inc := auto_inc d + 1, Albums := Albums d @ [a]\<rparr> \<and>
        ID a = auto_inc d \<and> Artist a \<noteq> [] \<and> Title a \<noteq> [] \<and> 0 < Year a)"
  by (auto simp: createAlbum_def Let_def Exec_insert_def store_varchar_nonempty
        split: sum.splits if_splits prod.splits option.splits)

text \<open>The invariant holds of the empty table and createAlbum keeps it.\<close>

lemma db_inv_db0: "db_inv db0"
  by (simp add: db_inv_def db0_def)

lemma db_inv_createAlbum: "db_inv d \<Longrightarrow> db_inv (fst (createAlbum d c))"
  using createAlbum_db [of d c]
  by (fastforce simp: db_inv_def list_all_iff)

lemma getAlbum_inserted:
  assumes "db_up d" and "db_inv d" and "ID a = auto_inc d"
    and "Atoi (Param g ''id'') = Inr (auto_inc d)"
  shows "getAlbum (d\<lparr>auto_inc := auto_inc d + 1, Albums := Albums d @ [a]\<rparr>) g =
         JSON 200 (marshal_Album a)"
proof -
  have "list_all (\<lambda>a. ID a < auto_inc d) (Albums d)"
    using assms(2) by (simp add: db_inv_def list_all_iff)
  then have "find (\<lambda>a. ID a = auto_inc d) (Albums d) = None"
    by (rule find_fresh)
  then show ?thesis
    using assms by (simp add: getAlbum_def QueryRow_Scan_def find_snoc)
qed

section \<open>Rejected creation requests\<close>

text \<open>
  C2: for every creation request in which artist, title or year is missing (the form value
  is empty), or the year string does not parse as an integer, or parses to an integer that
  is not positive, createAlbum responds 400 and the storage is left as it was: no row is
  added and the AUTO_INCREMENT counter does not move. The values are those of the parsed
  form; a request whose form does not parse at all is covered too (it is answered 400
  before any value is read).
\<close>

theorem createAlbum_rejects_invalid_fields:
  assumes "\<forall>form. ParseMultipartForm (push_bit 20 10) c = Inr form \<longrightarrow>
             FormValue form ''artist'' = [] \<or> FormValue form ''title'' = [] \<or>
             FormValue form ''year'' = [] \<or>
             (\<forall>y. Atoi (FormValue form ''year'') = Inr y \<longrightarrow> y \<le> 0)"
  shows "status (snd (createAlbum d c)) = 400 \<and> fst (createAlbum d c) = d"
proof (cases "ParseMultipartForm (push_bit 20 10) c")
  case (Inl e)
  then show ?thesis by (simp add: createAlbum_parse_failure JSON_def)
next
  case (Inr form)
  with assms have bad:
    "FormValue form ''artist'' = [] \<or> FormValue form ''title'' = [] \<or>
     FormValue form ''year'' = [] \<or> (\<forall>y. Atoi (FormValue form ''year'') = Inr y \<longrightarrow> y \<le> 0)"
    by blast
  show ?thesis
  proof (cases "FormValue form ''artist'' = [] \<or> FormValue form ''title'' = [] \<or>
     FormValue form ''year'' = []")
    case True
    with Inr show ?thesis by (auto simp: createAlbum_def Let_def JSON_def)
  next
    case False
    with bad have "\<forall>y. Atoi (FormValue form ''year'') = Inr y \<longrightarrow> y \<le> 0" by blast
    with Inr False show ?thesis
      by (cases "Atoi (FormValue form ''year'')") (auto simp: createAlbum_def Let_def JSON_def)
  qed
qed

text \<open>The year 0, an empty artist and a year that is not a number, on the empty table.\<close>

theorem createAlbum_rejects_invalid_fields_witness:
  "createAlbum db0 (post_albums ''Radiohead'' ''OK Computer'' ''0'' (upload img17)) =
     (db0, JSON 400 (H ''error'' (JStr ''Year must be a positive integer''))) \<and>
   status (snd (createAlbum db0 (post_albums ''Radiohead'' ''OK Computer'' ''0'' (upload img17)))) = 400 \<and>
   status (snd (createAlbum db0 (post_albums [] ''OK Computer'' ''1997'' (upload img17)))) = 400 \<and>
   fst (createAlbum db0 (post_albums [] ''OK Computer'' ''1997'' (upload img17))) = db0 \<and>
   status (snd (createAlbum db0 (post_albums ''Radiohead'' ''OK Computer'' ''19x7'' (upload img17)))) = 400 \<and>
   fst (createAlbum db0 (post_albums ''Radiohead'' ''OK Computer'' ''19x7'' (upload img17))) = db0"
  using createAlbum_rejects_invalid_fields
          [of "post_albums ''Radiohead'' ''OK Computer'' ''0'' (upload img17)" db0]
        createAlbum_rejects_invalid_fields
          [of "post_albums [] ''OK Computer'' ''1997'' (upload img17)" db0]
        createAlbum_rejects_invalid_fields
          [of "post_albums ''Radiohead'' ''OK Computer'' ''19x7'' (upload img17)" db0]
  by (simp add: handler_defs atoi_defs example_defs)

text \<open>
  C3: a creation request whose multipart body fails to parse, or whose total size exceeds
  the 10 MiB ceiling, is to be answered 400 with no row persisted. The first half is
  \<open>createAlbum_parse_failure\<close>. The second half fails: \<open>ParseMultipartForm(10 << 20)\<close>
  bounds the memory used for the form, not the size of the body, and line 68 is the only
  limit the handler sets. A form with an image of 11 MiB carries more than 10 MiB, is
  answered 201 and leaves a row in the table.
\<close>

theorem createAlbum_accepts_oversized_upload:
  "push_bit 20 10 < sent_bytes oversized_upload \<and>
   snd (createAlbum db0 oversized_upload) = JSON 201 (H ''AlbumID'' (JInt 1)) \<and>
   length (Albums (fst (createAlbum db0 oversized_upload))) = 1"
  by (simp add: handler_defs atoi_defs example_defs)

text \<open>
  C4 as stated: a request whose image part is missing, or whose payload cannot be opened
  or read, is answered 400. It fails on the two branches of lines 97-108: when the handler's
  own \<open>file.Open()\<close> or \<open>io.ReadAll\<close> fails, the response the code writes is 500.
\<close>

theorem createAlbum_unreadable_image_500:
  "snd (createAlbum db0 (post_albums ''Radiohead'' ''OK Computer'' ''1997''
          ((upload img17)\<lparr>fh_read := False\<rparr>))) =
     JSON 500 (H ''error'' (JStr ''Failed to read image file'')) \<and>
   snd (createAlbum db0 (post_albums ''Radiohead'' ''OK Computer'' ''1997''
          ((upload img17)\<lparr>fh_open := False\<rparr>))) =
     JSON 500 (H ''error'' (JStr ''Failed to process image file''))"
  by (simp add: handler_defs atoi_defs example_defs)

text \<open>
  C4, amended: for every creation request whose text fields pass validation, if
  \<open>c.FormFile("image")\<close> finds no image part (or fails to open it) createAlbum responds 400
  with the message "Image is required"; if the part is there but the handler cannot open it
  the response is 500 "Failed to process image file", and if it cannot read it the response
  is 500 "Failed to read image file". In all three cases the storage is left as it was.
\<close>

theorem createAlbum_image_failures:
  assumes "ParseMultipartForm (push_bit 20 10) c = Inr form"
    and "FormValue form ''artist'' \<noteq> []" and "FormValue form ''title'' \<noteq> []"
    and "Atoi (FormValue form ''year'') = Inr year" and "0 < year"
  shows "(\<forall>e. FormFile form ''image'' = Inl e \<longrightarrow>
            createAlbum d c = (d, JSON 400 (H ''error'' (JStr ''Image is required'')))) \<and>
         (\<forall>file. FormFile form ''image'' = Inr file \<and> \<not> fh_open file \<longrightarrow>
            createAlbum d c = (d, JSON 500 (H ''error'' (JStr ''Failed to process image file'')))) \<and>
         (\<forall>file. FormFile form ''image'' = Inr file \<and> fh_open file \<and> \<not> fh_read file \<longrightarrow>
            createAlbum d c = (d, JSON 500 (H ''error'' (JStr ''Failed to read image file''))))"
  using assms Atoi_nonempty [of "FormValue form ''year''" year]
  by (simp add: createAlbum_def Let_def Open_def ReadAll_def)

text \<open>
  A form without the image part, and image parts that fail at \<open>c.FormFile\<close>, at
  \<open>file.Open()\<close> and at \<open>io.ReadAll\<close>.
\<close>

theorem createAlbum_image_failures_witness:
  "createAlbum db0 no_image = (db0, JSON 400 (H ''error'' (JStr ''Image is required''))) \<and>
   createAlbum db0 (post_albums ''Radiohead'' ''OK Computer'' ''1997''
       ((upload img17)\<lparr>fh_probe := False\<rparr>)) =
     (db0, JSON 400 (H ''error'' (JStr ''Image is required''))) \<and>
   createAlbum db0 (post_albums ''Radiohead'' ''OK Computer'' ''1997''
       ((upload img17)\<lparr>fh_open := False\<rparr>)) =
     (db0, JSON 500 (H ''error'' (JStr ''Failed to process image file''))) \<and>
   createAlbum db0 (post_albums ''Radiohead'' ''OK Computer'' ''1997''
       ((upload img17)\<lparr>fh_read := False\<rparr>)) =
     (db0, JSON 500 (H ''error'' (JStr ''Failed to read image file'')))"
  using createAlbum_image_failures
    [of no_image
        "\<lparr>form_values = [(''artist'', ''Radiohead''), (''title'', ''OK Computer''), (''year'', ''1997'')],
          form_files = []\<rparr>" 1997 db0]
    createAlbum_image_failures
    [of "post_albums ''Radiohead'' ''OK Computer'' ''1997'' ((upload img17)\<lparr>fh_probe := False\<rparr>)"
        "\<lparr>form_values = [(''artist'', ''Radiohead''), (''title'', ''OK Computer''), (''year'', ''1997'')],
          form_files = [(''image'', (upload img17)\<lparr>fh_probe := False\<rparr>)]\<rparr>" 1997 db0]
    createAlbum_image_failures
    [of "post_albums ''Radiohead'' ''OK Computer'' ''1997'' ((upload img17)\<lparr>fh_open := False\<rparr>)"
        "\<lparr>form_values = [(''artist'', ''Radiohead''), (''title'', ''OK Computer''), (''year'', ''1997'')],
          form_files = [(''image'', (upload img17)\<lparr>fh_open := False\<rparr>)]\<rparr>" 1997 db0]
    createAlbum_image_failures
    [of "post_albums ''Radiohead'' ''OK Computer'' ''1997'' ((upload img17)\<lparr>fh_read := False\<rparr>)"
        "\<lparr>form_values = [(''artist'', ''Radiohead''), (''title'', ''OK Computer''), (''year'', ''1997'')],
          form_files = [(''image'', (upload img17)\<lparr>fh_read := False\<rparr>)]\<rparr>" 1997 db0]
  by (simp add: handler_defs atoi_defs example_defs)

section \<open>Creation followed by retrieval\<close>




text \<open>
  C10 as stated: a creation request whose image part is present but zero bytes long is
  accepted. It fails, as C1 does, where the rest of the row does not fit the columns: with
  the year 2147483648, an artist of 256 characters or an artist that is not well-formed
  text, the request with a zero-byte image is answered 500 and nothing is stored.
\<close>

theorem createAlbum_empty_image_column_overflow:
  "snd (createAlbum db0 (post_albums ''Radiohead'' ''OK Computer'' ''2147483648'' (upload []))) =
     JSON 500 (H ''error'' (JStr ''Failed to insert album'')) \<and>
   Albums (fst (createAlbum db0
     (post_albums ''Radiohead'' ''OK Computer'' ''2147483648'' (upload [])))) = [] \<and>
   snd (createAlbum db0 (post_albums (replicate 256 CHR ''a'') ''OK Computer'' ''1997'' (upload []))) =
     JSON 500 (H ''error'' (JStr ''Failed to insert album'')) \<and>
   snd (createAlbum db0 (post_albums [CHR 0xFF, CHR 0xFE] ''OK Computer'' ''1997'' (upload []))) =
     JSON 500 (H ''error'' (JStr ''Failed to insert album''))"
  by (simp add: handler_defs atoi_defs example_defs list_all_replicate)

text \<open>
  C10, amended: a creation request whose image part is present but zero bytes long, whose
  form parses, with a non-empty artist and a non-empty title that are well-formed text of
  at most 255 characters in the character set of the columns and a year string parsing as
  an integer from 1 to 2147483647, on a storage that answers (reachable, reporting insert
  ids, its AUTO_INCREMENT counter not exhausted) and holds what the service put there, is
  accepted: createAlbum responds 201 and persists a row with an empty image, and a
  subsequent getAlbum for that row responds 200 with a JSON body that has no \<open>image\<close>
  member.
\<close>

theorem createAlbum_accepts_empty_image:
  assumes "db_up d" and "db_insert_id d" and "db_inv d" and "auto_inc d \<le> 2147483647"
    and "ParseMultipartForm (push_bit 20 10) c = Inr form"
    and "FormValue form ''artist'' = artist" and "artist \<noteq> []" and "fits_varchar d artist"
    and "FormValue form ''title'' = title" and "title \<noteq> []" and "fits_varchar d title"
    and "Atoi (FormValue form ''year'') = Inr year" and "0 < year" and "year \<le> 2147483647"
    and "FormFile form ''image'' = Inr file" and "fh_open file" and "fh_read file"
    and "fh_content file = []"
    and "Atoi (Param g ''id'') = Inr (auto_inc d)"
  shows "snd (createAlbum d c) = JSON 201 (H ''AlbumID'' (JInt (auto_inc d))) \<and>
         Albums (fst (createAlbum d c)) =
           Albums d @ [\<lparr>ID = auto_inc d, Artist = artist, Title = title, Year = year,
                        Image_bytes = []\<rparr>] \<and>
         getAlbum (fst (createAlbum d c)) g =
           JSON 200 (JObj [(''id'', JInt (auto_inc d)), (''artist'', JStr artist),
                           (''title'', JStr title), (''year'', JInt year)]) \<and>
         member (body (getAlbum (fst (createAlbum d c)) g)) ''image'' = None"
proof -
  let ?a = "\<lparr>ID = auto_inc d, Artist = artist, Title = title, Year = year, Image_bytes = []\<rparr>"
  have fits: "fits_columns year (fh_content file)"
    using assms by (simp add: fits_columns_def)
  have created: "createAlbum d c =
      (d\<lparr>auto_inc := auto_inc d + 1, Albums := Albums d @ [?a]\<rparr>,
       JSON 201 (H ''AlbumID'' (JInt (auto_inc d))))"
    using createAlbum_success [of c form year "file" d] fits assms
    by simp
  have got: "getAlbum (fst (createAlbum d c)) g = JSON 200 (marshal_Album ?a)"
    using getAlbum_inserted [OF assms(1) assms(3) _ assms(19), of ?a] created by simp
  have pos: "0 < auto_inc d"
    using assms(3) by (simp add: db_inv_def)
  show ?thesis
    using created got pos by (simp add: marshal_Album_def JSON_def)
qed

text \<open>The scenario of the specification with an image of no bytes.\<close>

theorem createAlbum_accepts_empty_image_witness:
  "snd (createAlbum db0 (post_albums ''Radiohead'' ''OK Computer'' ''1997'' (upload []))) =
     JSON 201 (H ''AlbumID'' (JInt 1)) \<and>
   fst (createAlbum db0 (post_albums ''Radiohead'' ''OK Computer'' ''1997'' (upload []))) =
     db_blank_image \<and>
   getAlbum db_blank_image (get_albums ''1'') =
     JSON 200 (JObj [(''id'', JInt 1), (''artist'', JStr ''Radiohead''),
                     (''title'', JStr ''OK Computer''), (''year'', JInt 1997)]) \<and>
   member (body (getAlbum db_blank_image (get_albums ''1''))) ''image'' = None"
  using createAlbum_accepts_empty_image
    [of db0 "post_albums ''Radiohead'' ''OK Computer'' ''1997'' (upload [])"
        "\<lparr>form_values = [(''artist'', ''Radiohead''), (''title'', ''OK Computer''), (''year'', ''1997'')],
          form_files = [(''image'', upload [])]\<rparr>"
        "''Radiohead''" "''OK Computer''" 1997 "upload []" "get_albums ''1''"]
  by (simp add: handler_defs atoi_defs example_defs db_inv_def)

text \<open>
  C5 as stated: every row persisted through createAlbum has a non-empty image. It fails
  for the request above: nothing in lines 91-112 looks at the length of the bytes read, and
  the row stored has an empty image.
\<close>

theorem createAlbum_persists_empty_image:
  "Albums (fst (createAlbum db0 (post_albums ''Radiohead'' ''OK Computer'' ''1997'' (upload [])))) =
     [\<lparr>ID = 1, Artist = ''Radiohead'', Title = ''OK Computer'', Year = 1997, Image_bytes = []\<rparr>]"
  by (simp add: handler_defs atoi_defs example_defs)

text \<open>
  C5, amended: every row persisted through createAlbum has a non-empty artist, a non-empty
  title and a positive year (its image may be empty). For any request, createAlbum leaves
  the rows as they were or appends exactly one row with these three properties; so a table
  all of whose rows have them keeps them.
\<close>

theorem createAlbum_rows_valid:
  "(Albums (fst (createAlbum d c)) = Albums d \<or>
    (\<exists>a. Albums (fst (createAlbum d c)) = Albums d @ [a] \<and>
         Artist a \<noteq> [] \<and> Title a \<noteq> [] \<and> 0 < Year a)) \<and>
   (list_all (\<lambda>a. Artist a \<noteq> [] \<and> Title a \<noteq> [] \<and> 0 < Year a) (Albums d) \<longrightarrow>
    list_all (\<lambda>a. Artist a \<noteq> [] \<and> Title a \<noteq> [] \<and> 0 < Year a) (Albums (fst (createAlbum d c))))"
  using createAlbum_db [of d c] by auto

text \<open>The empty table, and the table after the scenario of the specification.\<close>

theorem createAlbum_rows_valid_witness:
  "list_all (\<lambda>a. Artist a \<noteq> [] \<and> Title a \<noteq> [] \<and> 0 < Year a) (Albums db0) \<and>
   list_all (\<lambda>a. Artist a \<noteq> [] \<and> Title a \<noteq> [] \<and> 0 < Year a)
     (Albums (fst (createAlbum db0 radiohead))) \<and>
   length (Albums (fst (createAlbum db0 radiohead))) = 1"
  using createAlbum_rows_valid [of db0 radiohead]
  by (simp add: handler_defs atoi_defs example_defs)

section \<open>Retrieval\<close>

text \<open>
  C6 as stated: when a row matches, getAlbum responds 200 with the album serialized as
  JSON including the binary image. It fails for a row whose image is zero bytes long: the
  \<open>omitempty\<close> tag of line 21 drops the member, and the body has no image.
\<close>

theorem getAlbum_omits_empty_image:
  "Atoi (Param (get_albums ''1'') ''id'') = Inr 1 \<and>
   find (\<lambda>a. ID a = 1) (Albums db_blank_image) =
     Some \<lparr>ID = 1, Artist = ''Radiohead'', Title = ''OK Computer'', Year = 1997, Image_bytes = []\<rparr> \<and>
   getAlbum db_blank_image (get_albums ''1'') =
     JSON 200 (JObj [(''id'', JInt 1), (''artist'', JStr ''Radiohead''),
                     (''title'', JStr ''OK Computer''), (''year'', JInt 1997)]) \<and>
   member (body (getAlbum db_blank_image (get_albums ''1''))) ''image'' = None"
  by (simp add: handler_defs atoi_defs example_defs)

text \<open>
  C6, amended: for every GET /albums/:id request, if \<open>strconv.Atoi\<close> rejects the id
  segment getAlbum responds 400; if the segment parses and the storage answers, it responds
  404 with body \<open>{"error": "Album not found"}\<close> when no persisted row has that id, and when a
  row matches it responds 200 with that album serialized as JSON: its artist, title and
  year, and its image when the image is not empty (an empty image is left out).
\<close>

theorem getAlbum_responses:
  "(\<forall>e. Atoi (Param c ''id'') = Inl e \<longrightarrow>
        getAlbum d c = JSON 400 (H ''error'' (JStr ''Invalid album ID''))) \<and>
   (\<forall>i. Atoi (Param c ''id'') = Inr i \<and> db_up d \<and> (\<forall>a \<in> set (Albums d). ID a \<noteq> i) \<longrightarrow>
        getAlbum d c = JSON 404 (H ''error'' (JStr ''Album not found''))) \<and>
   (\<forall>i a. Atoi (Param c ''id'') = Inr i \<and> db_up d \<and> find (\<lambda>a. ID a = i) (Albums d) = Some a \<longrightarrow>
        a \<in> set (Albums d) \<and> ID a = i \<and>
        getAlbum d c = JSON 200 (marshal_Album a) \<and>
        member (body (getAlbum d c)) ''artist'' = Some (JStr (Artist a)) \<and>
        member (body (getAlbum d c)) ''title'' = Some (JStr (Title a)) \<and>
        member (body (getAlbum d c)) ''year'' = Some (JInt (Year a)) \<and>
        member (body (getAlbum d c)) ''image'' =
          (if Image_bytes a = [] then None else Some (JBytes (Image_bytes a))))"
proof (intro conjI allI impI)
  fix e assume "Atoi (Param c ''id'') = Inl e"
  then show "getAlbum d c = JSON 400 (H ''error'' (JStr ''Invalid album ID''))"
    by (simp add: getAlbum_def)
next
  fix i assume h: "Atoi (Param c ''id'') = Inr i \<and> db_up d \<and> (\<forall>a \<in> set (Albums d). ID a \<noteq> i)"
  then have "find (\<lambda>a. ID a = i) (Albums d) = None"
    by (simp add: find_None_iff)
  with h show "getAlbum d c = JSON 404 (H ''error'' (JStr ''Album not found''))"
    by (simp add: getAlbum_def QueryRow_Scan_def)
next
  fix i a
  assume h: "Atoi (Param c ''id'') = Inr i \<and> db_up d \<and> find (\<lambda>a. ID a = i) (Albums d) = Some a"
  then have found: "find (\<lambda>a. ID a = i) (Albums d) = Some a" by simp
  from found show "a \<in> set (Albums d)"
    by (auto simp: find_Some_iff)
  from found show "ID a = i"
    by (auto simp: find_Some_iff)
  from h have got: "getAlbum d c = JSON 200 (marshal_Album a)"
    by (simp add: getAlbum_def QueryRow_Scan_def)
  then show "getAlbum d c = JSON 200 (marshal_Album a)" .
  from got show "member (body (getAlbum d c)) ''artist'' = Some (JStr (Artist a))"
    by (simp add: JSON_def member_marshal_Album)
  from got show "member (body (getAlbum d c)) ''title'' = Some (JStr (Title a))"
    by (simp add: JSON_def member_marshal_Album)
  from got show "member (body (getAlbum d c)) ''year'' = Some (JInt (Year a))"
    by (simp add: JSON_def member_marshal_Album)
  from got show "member (body (getAlbum d c)) ''image'' =
          (if Image_bytes a = [] then None else Some (JBytes (Image_bytes a)))"
    by (simp add: JSON_def member_marshal_Album)
qed

text \<open>
  /albums/abc, /albums/7 and /albums/1 after the scenario of the specification, and
  /albums/1 on the table whose only row has an empty image.
\<close>

theorem getAlbum_responses_witness:
  "getAlbum (fst (createAlbum db0 radiohead)) (get_albums ''abc'') =
     JSON 400 (H ''error'' (JStr ''Invalid album ID'')) \<and>
   getAlbum (fst (createAlbum db0 radiohead)) (get_albums ''7'') =
     JSON 404 (H ''error'' (JStr ''Album not found'')) \<and>
   getAlbum (fst (createAlbum db0 radiohead)) (get_albums ''1'') =
     JSON 200 (JObj [(''id'', JInt 1), (''artist'', JStr ''Radiohead''),
                     (''title'', JStr ''OK Computer''), (''year'', JInt 1997),
                     (''image'', JBytes img17)]) \<and>
   member (body (getAlbum db_blank_image (get_albums ''1''))) ''image'' = None"
proof -
  let ?d = "fst (createAlbum db0 radiohead)"
  let ?a = "\<lparr>ID = 1, Artist = ''Radiohead'', Title = ''OK Computer'', Year = 1997,
             Image_bytes = img17\<rparr>"
  let ?b = "\<lparr>ID = 1, Artist = ''Radiohead'', Title = ''OK Computer'', Year = 1997,
             Image_bytes = []\<rparr>"
  have d: "?d = \<lparr>db_up = True, db_insert_id = True, db_chars = ascii_chars, auto_inc = 2,
                 Albums = [?a]\<rparr>"
    by (simp add: handler_defs atoi_defs example_defs)
  have abc: "Atoi (Param (get_albums ''abc'') ''id'') = Inl ErrSyntax"
    by (simp add: Param_def atoi_defs get_albums_def)
  have seven: "Atoi (Param (get_albums ''7'') ''id'') = Inr 7"
    by (simp add: Param_def atoi_defs get_albums_def)
  have one: "Atoi (Param (get_albums ''1'') ''id'') = Inr 1"
    by (simp add: Param_def atoi_defs get_albums_def)
  have up: "db_up ?d" and none: "\<forall>a \<in> set (Albums ?d). ID a \<noteq> 7"
    and some: "find (\<lambda>a. ID a = 1) (Albums ?d) = Some ?a"
    by (simp_all add: d)
  have up': "db_up db_blank_image"
    and some': "find (\<lambda>a. ID a = 1) (Albums db_blank_image) = Some ?b"
    by (simp_all add: db_blank_image_def)
  have r1: "getAlbum ?d (get_albums ''abc'') = JSON 400 (H ''error'' (JStr ''Invalid album ID''))"
    using getAlbum_responses [of "get_albums ''abc''" ?d] abc by blast
  have r2: "getAlbum ?d (get_albums ''7'') = JSON 404 (H ''error'' (JStr ''Album not found''))"
    using getAlbum_responses [of "get_albums ''7''" ?d] seven up none by blast
  have r3: "getAlbum ?d (get_albums ''1'') = JSON 200 (marshal_Album ?a)"
    using getAlbum_responses [of "get_albums ''1''" ?d] one up some by blast
  have r4: "member (body (getAlbum db_blank_image (get_albums ''1''))) ''image'' =
      (if Image_bytes ?b = [] then None else Some (JBytes (Image_bytes ?b)))"
    using getAlbum_responses [of "get_albums ''1''" db_blank_image] one up' some' by blast
  have m: "marshal_Album ?a = JObj [(''id'', JInt 1), (''artist'', JStr ''Radiohead''),
                     (''title'', JStr ''OK Computer''), (''year'', JInt 1997),
                     (''image'', JBytes img17)]"
    by (simp add: marshal_Album_def img17_def)
  show ?thesis
    using r1 r2 r3 r4 m by simp
qed



section \<open>The liveness handler\<close>

text \<open>
  C7: for every request and every state of the storage, GET /health responds 200 with the
  body \<open>{"status":"ok"}\<close>; the handler does not consult the storage handle.
\<close>

theorem health_always_ok:
  "health d c = \<lparr>status = 200, body = JObj [(''status'', JStr ''ok'')]\<rparr>"
  by (simp add: health_def JSON_def H_def)

section \<open>Start-up\<close>

text \<open>
  C8: at start-up, if the DB_DSN environment variable is absent the process exits fatally
  (in \<open>initDB\<close>, before the router exists, so before any traffic is accepted), as it does on
  every other failure of \<open>initDB\<close>; when start-up succeeds, the router listens on the port
  of the PORT environment variable when it is set, and on 8080 when it is not.
\<close>

theorem main_environment:
  "(e ''DB_DSN'' = None \<longrightarrow> main e srv = Fatal ''DB_DSN environment variable not set'') \<and>
   (\<forall>msg. initDB e srv = Inl msg \<longrightarrow> main e srv = Fatal msg) \<and>
   (\<forall>d p. initDB e srv = Inr d \<and> e ''PORT'' = Some p \<and> p \<noteq> [] \<longrightarrow> main e srv = Run ('':'' @ p) d) \<and>
   (\<forall>d. initDB e srv = Inr d \<and> e ''PORT'' = None \<longrightarrow> main e srv = Run '':8080'' d)"
  by (auto simp: main_def initDB_def Getenv_def Let_def)

text \<open>
  No variable set; PORT alone; DB_DSN and PORT; DB_DSN alone.
\<close>

theorem main_environment_witness:
  "main Map.empty server_ok = Fatal ''DB_DSN environment variable not set'' \<and>
   main [''PORT'' \<mapsto> ''9090''] server_ok = Fatal ''DB_DSN environment variable not set'' \<and>
   main [''DB_DSN'' \<mapsto> ''user:pw@tcp(db:3306)/albums'', ''PORT'' \<mapsto> ''9090''] server_ok = Run '':9090'' db0 \<and>
   main [''DB_DSN'' \<mapsto> ''user:pw@tcp(db:3306)/albums''] server_ok = Run '':8080'' db0"
  using main_environment [of Map.empty server_ok]
        main_environment [of "[''PORT'' \<mapsto> ''9090'']" server_ok]
        main_environment [of "[''DB_DSN'' \<mapsto> ''user:pw@tcp(db:3306)/albums'', ''PORT'' \<mapsto> ''9090'']" server_ok]
        main_environment [of "[''DB_DSN'' \<mapsto> ''user:pw@tcp(db:3306)/albums'']" server_ok]
  by (simp add: main_def initDB_def Getenv_def Let_def server_ok_def)

end
